theory Spec2Isabelle
  imports Complex_Main "HOL-Library.Sublist"
begin

section \<open>Data model\<close>

text \<open>
  The bot keeps three process-lifetime objects, all keyed by the Telegram user id written
  as a decimal string (\<^verbatim>\<open>src/types.ts\<close>, \<^verbatim>\<open>index.ts\<close>):
  \<^verbatim>\<open>USERS\<close>, \<^verbatim>\<open>PENDING_DELETIONS\<close> and \<^verbatim>\<open>PENDING_TRANSACTIONS\<close>.
  A JavaScript object used as a dictionary is a partial map; each of the three value types
  is an object (a \<^verbatim>\<open>Keypair\<close>, a \<^verbatim>\<open>Timeout\<close>, a proposal literal), hence truthy,
  so the tests \<^verbatim>\<open>if (users[userId])\<close> are tests for the presence of the key.
\<close>

text \<open>
  A JavaScript \<^verbatim>\<open>number\<close>. Only the order and the \<^verbatim>\<open>NaN\<close> test are used by the
  handlers, so a finite value is carried as the rational it denotes and the three special
  values are constructors of their own. Arithmetic on numbers (the division by
  \<^verbatim>\<open>LAMPORTS_PER_SOL\<close>) stays inside the ledger client, which is a parameter below.
\<close>

datatype number = NaN | NegInf | Fin rat | PosInf

fun isNaN :: "number \<Rightarrow> bool" where
  "isNaN NaN = True"
| "isNaN _ = False"

text \<open>\<^verbatim>\<open>a < b\<close> on numbers: false as soon as one side is \<^verbatim>\<open>NaN\<close>.\<close>

fun num_less :: "number \<Rightarrow> number \<Rightarrow> bool" where
  "num_less NaN _ = False"
| "num_less _ NaN = False"
| "num_less NegInf NegInf = False"
| "num_less NegInf _ = True"
| "num_less _ NegInf = False"
| "num_less (Fin a) (Fin b) = (a < b)"
| "num_less (Fin a) PosInf = True"
| "num_less PosInf _ = False"

text \<open>\<^verbatim>\<open>a <= b\<close> on numbers.\<close>

fun num_le :: "number \<Rightarrow> number \<Rightarrow> bool" where
  "num_le NaN _ = False"
| "num_le _ NaN = False"
| "num_le NegInf _ = True"
| "num_le _ PosInf = True"
| "num_le (Fin a) (Fin b) = (a \<le> b)"
| "num_le (Fin a) NegInf = False"
| "num_le PosInf _ = False"

text \<open>A thrown \<^verbatim>\<open>Error\<close>; the handlers only read its \<^verbatim>\<open>message\<close>.\<close>

datatype error = Error (message: string)

text \<open>\<^verbatim>\<open>haystack.includes(needle)\<close> on strings.\<close>

fun str_includes :: "string \<Rightarrow> string \<Rightarrow> bool" where
  "str_includes [] needle = (needle = [])"
| "str_includes (c # cs) needle = (prefix needle (c # cs) \<or> str_includes cs needle)"

text \<open>
  A public key is identified with its base-58 text, so that
  \<^verbatim>\<open>new PublicKey(keypair.publicKey.toBase58())\<close> is the key itself.
\<close>

type_synonym pubkey = string

record keypair =
  publicKey :: pubkey
  secretKey :: "nat list"

record balanceInfo =
  balance :: number
  lamports :: number

text \<open>The value type of \<^verbatim>\<open>PendingTransactions\<close>.\<close>

record proposal =
  recipientAddress :: string
  amount :: number
  timestamp :: int

text \<open>
  The closure handed to \<^verbatim>\<open>setTimeout\<close> by the export handler: it captures the user id
  and the id of the message that shows the key; \<^verbatim>\<open>delay\<close> is the delay in milliseconds.
\<close>

record retraction =
  forUser :: string
  messageId :: nat
  delay :: nat

text \<open>
  The state: the three dictionaries, and the runtime's table of armed single-shot timers
  (\<^verbatim>\<open>setTimeout\<close> returns a fresh handle; the table maps a handle to its callback).
\<close>

record state =
  users :: "string \<rightharpoonup> keypair"
  pendingDeletions :: "string \<rightharpoonup> nat"
  pendingTransactions :: "string \<rightharpoonup> proposal"
  timers :: "nat \<rightharpoonup> retraction"
  nextTimer :: nat

definition initial :: state where
  "initial = \<lparr>users = Map.empty, pendingDeletions = Map.empty,
     pendingTransactions = Map.empty, timers = Map.empty, nextTimer = 0\<rparr>"

subsection \<open>What a handler does to the outside\<close>

text \<open>
  Every message template of the handlers is a constructor that carries the values the
  template interpolates; the surrounding wording and the number formatting
  (\<^verbatim>\<open>toFixed(6)\<close>) belong to the transport.
\<close>

datatype text_message =
    WalletAlreadyExists
  | WalletGenerated pubkey balanceInfo string
  | NoWalletFound
  | PrivateKeyWait
  | PrivateKeyWarning "nat list"
  | TransactionExpiredOrInvalid
  | InsufficientBalanceAtConfirm number
  | SolSentSuccessfully number string string
  | InvalidRecipientAtConfirm
  | FailedToSendSol
  | TransactionCancelled
  | InvalidFormat
  | InvalidAmount
  | AlreadyPendingTransaction
  | InsufficientBalanceAtPropose number number
  | ConfirmSolTransfer number string number
  | InvalidRecipientAtPropose
  | InvalidTransactionFormat

text \<open>
  The calls a handler makes on the chat context and the console, in program order.
  \<open>SendMessage t w\<close> is \<^verbatim>\<open>ctx.sendMessage\<close> with the keyboard built by
  \<^verbatim>\<open>getKeyboard(userId, w)\<close>.
\<close>

datatype effect =
    AnswerCbQuery string
  | SendMessage text_message bool
  | EditMessageText text_message
  | Reply text_message
  | DeleteMessage nat
  | ConsoleLog string
  | ConsoleError string error

section \<open>Helpers (\<^verbatim>\<open>src/utils/helpers.ts\<close>)\<close>

definition hasWallet :: "string \<Rightarrow> (string \<rightharpoonup> keypair) \<Rightarrow> bool" where
  "hasWallet userId us = (us userId \<noteq> None)"

text \<open>\<^verbatim>\<open>ctx.match?.[1]\<close> is a string or \<^verbatim>\<open>undefined\<close>.\<close>

definition validateUserId :: "string option \<Rightarrow> bool" where
  "validateUserId userId = (case userId of None \<Rightarrow> False | Some u \<Rightarrow> length u > 0)"

definition sendMessageWithKeyboard :: "text_message \<Rightarrow> string \<Rightarrow> (string \<rightharpoonup> keypair) \<Rightarrow> effect" where
  "sendMessageWithKeyboard t userId us = SendMessage t (hasWallet userId us)"

definition handleError :: "error \<Rightarrow> string \<Rightarrow> effect list" where
  "handleError e action =
     [ConsoleError (''Error in '' @ action @ '' handler:'') e,
      AnswerCbQuery ''Something went wrong!'']"

section \<open>Ledger client (\<^verbatim>\<open>src/services/solana.ts\<close>)\<close>

text \<open>
  \<open>rpc\<close> stands for the body of the \<^verbatim>\<open>try\<close> block of \<^verbatim>\<open>getBalance\<close> (the RPC call and
  the conversion to SOL); whatever it throws is written to the error console and replaced
  by one fixed error. The result is the console lines written and the outcome.
\<close>

definition getBalance ::
  "(pubkey \<Rightarrow> error + balanceInfo) \<Rightarrow> pubkey \<Rightarrow> effect list \<times> (error + balanceInfo)" where
  "getBalance rpc pk =
     (case rpc pk of
        Inl e \<Rightarrow>
          ([ConsoleError ''Error fetching balance:'' e],
           Inl (Error ''Failed to fetch balance. Please try again later.''))
      | Inr b \<Rightarrow> ([], Inr b))"

text \<open>
  \<open>submit\<close> stands for the body of the \<^verbatim>\<open>try\<close> block of \<^verbatim>\<open>sendSOL\<close> (building, signing
  and confirming the transfer); it yields the transaction signature. A failure is written
  to the error console and replaced by one fixed error.
\<close>

definition sendSOL ::
  "(keypair \<Rightarrow> pubkey \<Rightarrow> number \<Rightarrow> error + string) \<Rightarrow> keypair \<Rightarrow> pubkey \<Rightarrow> number
     \<Rightarrow> effect list \<times> (error + string)" where
  "sendSOL submit fromKeypair toPublicKey amt =
     (case submit fromKeypair toPublicKey amt of
        Inl e \<Rightarrow>
          ([ConsoleError ''Error sending SOL:'' e],
           Inl (Error ''Failed to send SOL. Please check your balance and try again.''))
      | Inr signature \<Rightarrow> ([], Inr signature))"

section \<open>Wallet handlers (\<^verbatim>\<open>src/handlers/wallet.ts\<close>)\<close>

text \<open>
  \<^verbatim>\<open>handleGenerateWallet\<close>. \<open>gen\<close> is the outcome of the three library calls that draw
  the mnemonic and derive the keypair from it (an \<open>Inl\<close> when one of them throws); \<open>rpc\<close>
  is the ledger at the time of the call. The keypair is stored before the balance is
  fetched, and an exception of the fetch is caught by the handler's only \<^verbatim>\<open>catch\<close>.
\<close>

definition handleGenerateWallet ::
  "state \<Rightarrow> string option \<Rightarrow> error + (string \<times> keypair) \<Rightarrow> (pubkey \<Rightarrow> error + balanceInfo)
     \<Rightarrow> state \<times> effect list" where
  "handleGenerateWallet s m gen rpc =
     (if \<not> validateUserId m then (s, [AnswerCbQuery ''User ID not found!''])
      else
        let userId = the m in
        if users s userId \<noteq> None then
          (s, [AnswerCbQuery ''Generating wallet...'',
               sendMessageWithKeyboard WalletAlreadyExists userId (users s)])
        else
          (case gen of
             Inl e \<Rightarrow> (s, AnswerCbQuery ''Generating wallet...'' # handleError e ''generate_wallet'')
           | Inr (mnemonic, kp) \<Rightarrow>
               let s' = s\<lparr>users := (users s)(userId \<mapsto> kp)\<rparr> in
               (case getBalance rpc (publicKey kp) of
                  (logged, Inl e) \<Rightarrow>
                    (s', AnswerCbQuery ''Generating wallet...''
                           # logged @ handleError e ''generate_wallet'')
                | (logged, Inr b) \<Rightarrow>
                    (s', AnswerCbQuery ''Generating wallet...''
                           # logged @
                           [sendMessageWithKeyboard (WalletGenerated (publicKey kp) b mnemonic)
                              userId (users s')]))))"

text \<open>
  \<^verbatim>\<open>handleExportPrivateKey\<close> is an \<^verbatim>\<open>async\<close> function. Its first part tests for a
  wallet and for an entry in \<^verbatim>\<open>pendingDeletions\<close>, calls \<^verbatim>\<open>ctx.sendMessage\<close> with the
  key and gives up control at the \<^verbatim>\<open>await\<close> of that call, with the user id captured.
  \<open>exportBegin\<close> yields the calls made so far and, when the handler is suspended there,
  the captured user id. The second part is resumed with \<open>sent\<close>, the outcome of the send
  (the id of the message sent, or the exception): only then is the timer armed and entered
  into \<^verbatim>\<open>pendingDeletions\<close>.
\<close>

definition exportBegin :: "state \<Rightarrow> string option \<Rightarrow> effect list \<times> string option" where
  "exportBegin s m =
     (if \<not> validateUserId m then ([], None)
      else
        let userId = the m in
        (case users s userId of
           None \<Rightarrow>
             ([AnswerCbQuery [], sendMessageWithKeyboard NoWalletFound userId (users s)], None)
         | Some kp \<Rightarrow>
             if pendingDeletions s userId \<noteq> None then
               ([AnswerCbQuery [], sendMessageWithKeyboard PrivateKeyWait userId (users s)], None)
             else
               ([AnswerCbQuery [], SendMessage (PrivateKeyWarning (secretKey kp)) True],
                Some userId)))"

definition exportResume :: "state \<Rightarrow> string \<Rightarrow> error + nat \<Rightarrow> state \<times> effect list" where
  "exportResume s userId sent =
     (case sent of
        Inl e \<Rightarrow> (s, handleError e ''export_private_key'')
      | Inr mid \<Rightarrow>
          (s\<lparr>pendingDeletions := (pendingDeletions s)(userId \<mapsto> nextTimer s),
             timers := (timers s)(nextTimer s \<mapsto>
               \<lparr>forUser = userId, messageId = mid, delay = 30000\<rparr>),
             nextTimer := Suc (nextTimer s)\<rparr>,
           []))"

text \<open>One export request handled with nothing else running in between.\<close>

definition handleExportPrivateKey ::
  "state \<Rightarrow> string option \<Rightarrow> error + nat \<Rightarrow> state \<times> effect list" where
  "handleExportPrivateKey s m sent =
     (case exportBegin s m of
        (effs, None) \<Rightarrow> (s, effs)
      | (effs, Some userId) \<Rightarrow>
          (case exportResume s userId sent of (s', effs') \<Rightarrow> (s', effs @ effs')))"

text \<open>
  The body of the timer callback: \<^verbatim>\<open>try { deleteMessage; log } catch { error } finally
  { delete pendingDeletions[userId] }\<close>. \<open>deleted\<close> is the outcome of
  \<^verbatim>\<open>ctx.deleteMessage\<close>.
\<close>

definition retractionCallback ::
  "state \<Rightarrow> retraction \<Rightarrow> error + unit \<Rightarrow> state \<times> effect list" where
  "retractionCallback s r deleted =
     (s\<lparr>pendingDeletions := (pendingDeletions s)(forUser r := None)\<rparr>,
      (case deleted of
         Inr _ \<Rightarrow>
           [DeleteMessage (messageId r),
            ConsoleLog (''Auto-deleted private key message for user '' @ forUser r)]
       | Inl e \<Rightarrow>
           [DeleteMessage (messageId r),
            ConsoleError ''Failed to delete private key message:'' e]))"

text \<open>
  The runtime fires an armed timer once: it leaves the table and its callback runs.
  A handle that is not armed fires nothing.
\<close>

definition fireTimer :: "state \<Rightarrow> nat \<Rightarrow> error + unit \<Rightarrow> state \<times> effect list" where
  "fireTimer s h deleted =
     (case timers s h of
        None \<Rightarrow> (s, [])
      | Some r \<Rightarrow> retractionCallback (s\<lparr>timers := (timers s)(h := None)\<rparr>) r deleted)"

text \<open>
  \<^verbatim>\<open>handleConfirmSendSol\<close>. \<open>PublicKey\<close> is the address parser
  (\<^verbatim>\<open>new PublicKey(recipientAddress)\<close>, which throws on a malformed address); \<open>rpc\<close> and
  \<open>submit\<close> are the ledger at the time of the call. The inner \<^verbatim>\<open>catch\<close> receives
  whatever the parser, the balance fetch or the submission throws.
\<close>

definition confirmFailed ::
  "state \<Rightarrow> string \<Rightarrow> effect list \<Rightarrow> error \<Rightarrow> state \<times> effect list" where
  "confirmFailed s userId logged e =
     (s\<lparr>pendingTransactions := (pendingTransactions s)(userId := None)\<rparr>,
      AnswerCbQuery ''Processing transaction...'' # logged @
      [ConsoleError ''SOL transfer error:'' e,
       EditMessageText
         (if str_includes (message e) ''Invalid public key input''
          then InvalidRecipientAtConfirm else FailedToSendSol)])"

definition handleConfirmSendSol ::
  "(string \<Rightarrow> error + pubkey) \<Rightarrow> state \<Rightarrow> string option \<Rightarrow> (pubkey \<Rightarrow> error + balanceInfo)
     \<Rightarrow> (keypair \<Rightarrow> pubkey \<Rightarrow> number \<Rightarrow> error + string) \<Rightarrow> state \<times> effect list" where
  "handleConfirmSendSol PublicKey s m rpc submit =
     (if \<not> validateUserId m then (s, [])
      else
        let userId = the m in
        (case (users s userId, pendingTransactions s userId) of
           (Some senderKeypair, Some p) \<Rightarrow>
             (case PublicKey (recipientAddress p) of
                Inl e \<Rightarrow> confirmFailed s userId [] e
              | Inr recipientPublicKey \<Rightarrow>
                  (case getBalance rpc (publicKey senderKeypair) of
                     (logged, Inl e) \<Rightarrow> confirmFailed s userId logged e
                   | (logged, Inr balanceInfo) \<Rightarrow>
                       if num_less (balance balanceInfo) (amount p) then
                         (s\<lparr>pendingTransactions := (pendingTransactions s)(userId := None)\<rparr>,
                          AnswerCbQuery ''Processing transaction...'' # logged @
                          [EditMessageText (InsufficientBalanceAtConfirm (balance balanceInfo))])
                       else
                         (case sendSOL submit senderKeypair recipientPublicKey (amount p) of
                            (logged', Inl e) \<Rightarrow> confirmFailed s userId (logged @ logged') e
                          | (logged', Inr signature) \<Rightarrow>
                              (s\<lparr>pendingTransactions := (pendingTransactions s)(userId := None)\<rparr>,
                               AnswerCbQuery ''Processing transaction...'' # logged @ logged' @
                               [EditMessageText
                                  (SolSentSuccessfully (amount p) (recipientAddress p) signature)]))))
         | _ \<Rightarrow>
             (s, [AnswerCbQuery ''Processing transaction...'',
                  EditMessageText TransactionExpiredOrInvalid])))"

text \<open>\<^verbatim>\<open>handleCancelSendSol\<close>: the same two calls on the context whether or not an entry was there.\<close>

definition handleCancelSendSol :: "state \<Rightarrow> string option \<Rightarrow> state \<times> effect list" where
  "handleCancelSendSol s m =
     (if \<not> validateUserId m then (s, [])
      else
        let userId = the m in
        ((if pendingTransactions s userId \<noteq> None
          then s\<lparr>pendingTransactions := (pendingTransactions s)(userId := None)\<rparr>
          else s),
         [AnswerCbQuery ''Transaction cancelled'', EditMessageText TransactionCancelled]))"

section \<open>The text handler and the sweep (\<^verbatim>\<open>index.ts\<close>)\<close>

text \<open>
  \<^verbatim>\<open>text.split(' ')\<close>: a new part starts after every space; the text without a space
  is one part. The built-ins \<^verbatim>\<open>String.prototype.trim\<close> and \<^verbatim>\<open>parseFloat\<close> are
  parameters \<open>trim\<close> and \<open>parseFloat\<close> of the handler, as is the address parser.
\<close>

fun split_space :: "string \<Rightarrow> string list" where
  "split_space [] = [[]]"
| "split_space (c # cs) =
     (if c = CHR 0x20 then [] # split_space cs
      else (case split_space cs of [] \<Rightarrow> [[c]] | p # ps \<Rightarrow> (c # p) # ps))"

text \<open>The part of a Telegram text update the handler reads.\<close>

record update =
  fromId :: "string option"
  messageText :: string

text \<open>
  The handler is an \<^verbatim>\<open>async\<close> function: at
  \<^verbatim>\<open>await solanaService.getBalance(...)\<close> it gives up control with its local
  variables captured, and it is resumed with the outcome of the fetch. The two parts are
  two functions; the test for a pending proposal is in the first, the store in the second.
  (The first part also awaits the import of the key library, before the address is parsed;
  what it has read by then is the update and the presence of the wallet, which no handler
  removes, so the part is kept in one piece.)
\<close>

record transferLocals =
  tUserId :: string
  tRecipientAddress :: string
  tAmount :: number
  tSenderKeypair :: keypair

definition prepareFailed :: "error \<Rightarrow> effect list" where
  "prepareFailed e =
     [ConsoleError ''SOL transfer preparation error:'' e,
      Reply (if str_includes (message e) ''Invalid public key input''
             then InvalidRecipientAtPropose else InvalidTransactionFormat)]"

definition onTextBegin ::
  "(string \<Rightarrow> error + pubkey) \<Rightarrow> (string \<Rightarrow> number) \<Rightarrow> (string \<Rightarrow> string) \<Rightarrow> state \<Rightarrow> update
     \<Rightarrow> effect list + transferLocals" where
  "onTextBegin PublicKey parseFloat trim s upd =
     (case fromId upd of
        None \<Rightarrow> Inl []
      | Some userId \<Rightarrow>
          if userId = [] then Inl []
          else
            (case users s userId of
               None \<Rightarrow> Inl []
             | Some senderKeypair \<Rightarrow>
                 let parts = split_space (trim (messageText upd)) in
                 if length parts = 2 then
                   let recipientAddress = parts ! 0; amountStr = parts ! 1 in
                   if recipientAddress = [] \<or> amountStr = [] then Inl [Reply InvalidFormat]
                   else
                     let amt = parseFloat amountStr in
                     if isNaN amt \<or> num_le amt (Fin 0) then Inl [Reply InvalidAmount]
                     else
                       (case PublicKey recipientAddress of
                          Inl e \<Rightarrow> Inl (prepareFailed e)
                        | Inr _ \<Rightarrow>
                            if pendingTransactions s userId \<noteq> None
                            then Inl [Reply AlreadyPendingTransaction]
                            else Inr \<lparr>tUserId = userId, tRecipientAddress = recipientAddress,
                                       tAmount = amt, tSenderKeypair = senderKeypair\<rparr>)
                 else Inl []))"

definition onTextResume ::
  "state \<Rightarrow> transferLocals \<Rightarrow> error + balanceInfo \<Rightarrow> int \<Rightarrow> state \<times> effect list" where
  "onTextResume s loc fetched now =
     (case fetched of
        Inl e \<Rightarrow> (s, prepareFailed e)
      | Inr balanceInfo \<Rightarrow>
          if num_less (balance balanceInfo) (tAmount loc) then
            (s, [Reply (InsufficientBalanceAtPropose (balance balanceInfo) (tAmount loc))])
          else
            (s\<lparr>pendingTransactions := (pendingTransactions s)(tUserId loc \<mapsto>
                 \<lparr>recipientAddress = tRecipientAddress loc, amount = tAmount loc,
                  timestamp = now\<rparr>)\<rparr>,
             [Reply (ConfirmSolTransfer (tAmount loc) (tRecipientAddress loc)
                       (balance balanceInfo))]))"

text \<open>One text update handled with nothing else running in between.\<close>

definition onText ::
  "(string \<Rightarrow> error + pubkey) \<Rightarrow> (string \<Rightarrow> number) \<Rightarrow> (string \<Rightarrow> string) \<Rightarrow> state \<Rightarrow> update
     \<Rightarrow> (pubkey \<Rightarrow> error + balanceInfo) \<Rightarrow> int \<Rightarrow> state \<times> effect list" where
  "onText PublicKey parseFloat trim s upd rpc now =
     (case onTextBegin PublicKey parseFloat trim s upd of
        Inl effs \<Rightarrow> (s, effs)
      | Inr loc \<Rightarrow>
          (case getBalance rpc (publicKey (tSenderKeypair loc)) of
             (logged, fetched) \<Rightarrow>
               (case onTextResume s loc fetched now of (s', effs) \<Rightarrow> (s', logged @ effs))))"

text \<open>
  The \<^verbatim>\<open>setInterval\<close> callback: every entry older than five minutes is deleted. The loop
  over \<^verbatim>\<open>Object.keys\<close> treats each key on its own, which is the pointwise filter.
\<close>

definition sweepPendingTransactions :: "int \<Rightarrow> state \<Rightarrow> state" where
  "sweepPendingTransactions now s =
     s\<lparr>pendingTransactions := (\<lambda>userId.
          case pendingTransactions s userId of
            None \<Rightarrow> None
          | Some t \<Rightarrow> if now - timestamp t > 5 * 60 * 1000 then None else Some t)\<rparr>"

section \<open>Runs of the bot\<close>

text \<open>
  One step of the bot is one of the state-changing handlers run from its first statement to
  its last on some input (the other handlers only read \<^verbatim>\<open>users\<close>), a timer firing,
  or the sweep. The address parser is a pure function of the address and so is the same in
  every step; the ledger, the clock and the transport outcomes are free in each step.
  Calls on the chat context are recorded as made; of their failures only the two that a
  handler catches are modelled (the awaited send of the export handler and the deletion in
  the timer callback). The shutdown hook ends the run and is not a step. Runs in which
  handlers overlap at an \<^verbatim>\<open>await\<close> are the subject of the subsections that follow.
\<close>

inductive step :: "(string \<Rightarrow> error + pubkey) \<Rightarrow> state \<Rightarrow> state \<Rightarrow> bool"
  for PublicKey :: "string \<Rightarrow> error + pubkey" where
  generate: "step PublicKey s (fst (handleGenerateWallet s m gen rpc))"
| export: "step PublicKey s (fst (handleExportPrivateKey s m sent))"
| retract: "step PublicKey s (fst (fireTimer s h deleted))"
| propose: "step PublicKey s (fst (onText PublicKey parseFloat trim s upd rpc now))"
| confirm: "step PublicKey s (fst (handleConfirmSendSol PublicKey s m rpc submit))"
| cancel: "step PublicKey s (fst (handleCancelSendSol s m))"
| sweep: "step PublicKey s (sweepPendingTransactions now s)"

inductive reachable :: "(string \<Rightarrow> error + pubkey) \<Rightarrow> state \<Rightarrow> bool"
  for PublicKey :: "string \<Rightarrow> error + pubkey" where
  start: "reachable PublicKey initial"
| advance: "reachable PublicKey s \<Longrightarrow> step PublicKey s s' \<Longrightarrow> reachable PublicKey s'"

text \<open>
  What every run maintains: pending entries belong to users with a wallet; an armed timer
  is the one recorded for its user, and its handle has been handed out; a stored proposal
  carries an address the parser accepts.
\<close>

definition consistent :: "(string \<Rightarrow> error + pubkey) \<Rightarrow> state \<Rightarrow> bool" where
  "consistent PublicKey s =
     ((\<forall>u h. pendingDeletions s u = Some h \<longrightarrow> users s u \<noteq> None)
    \<and> (\<forall>h r. timers s h = Some r \<longrightarrow> pendingDeletions s (forUser r) = Some h)
    \<and> (\<forall>h r. timers s h = Some r \<longrightarrow> h < nextTimer s)
    \<and> (\<forall>u p. pendingTransactions s u = Some p \<longrightarrow>
          users s u \<noteq> None \<and> (\<exists>k. PublicKey (recipientAddress p) = Inr k)))"

subsection \<open>Two text updates in flight\<close>

text \<open>
  A handler invocation in flight is a task: not yet started, suspended at the balance
  fetch, or finished with the calls it made. The runtime runs one task at a time up to its
  next suspension; a schedule says whose turn it is. Each task reads its own clock value
  when it stores.
\<close>

datatype task = Arrived update | Suspended transferLocals | Finished "effect list"

datatype turn = First | Second

definition runTask ::
  "(string \<Rightarrow> error + pubkey) \<Rightarrow> (string \<Rightarrow> number) \<Rightarrow> (string \<Rightarrow> string) \<Rightarrow> (pubkey \<Rightarrow> error + balanceInfo) \<Rightarrow> int
     \<Rightarrow> state \<Rightarrow> task \<Rightarrow> state \<times> task" where
  "runTask PublicKey parseFloat trim rpc now s t =
     (case t of
        Arrived upd \<Rightarrow>
          (case onTextBegin PublicKey parseFloat trim s upd of
             Inl effs \<Rightarrow> (s, Finished effs)
           | Inr loc \<Rightarrow> (s, Suspended loc))
      | Suspended loc \<Rightarrow>
          (case getBalance rpc (publicKey (tSenderKeypair loc)) of
             (logged, fetched) \<Rightarrow>
               (case onTextResume s loc fetched now of
                  (s', effs) \<Rightarrow> (s', Finished (logged @ effs))))
      | Finished effs \<Rightarrow> (s, Finished effs))"

fun runSchedule ::
  "(string \<Rightarrow> error + pubkey) \<Rightarrow> (string \<Rightarrow> number) \<Rightarrow> (string \<Rightarrow> string) \<Rightarrow> (pubkey \<Rightarrow> error + balanceInfo)
     \<Rightarrow> int \<Rightarrow> int \<Rightarrow> turn list \<Rightarrow> state \<times> task \<times> task \<Rightarrow> state \<times> task \<times> task" where
  "runSchedule PublicKey parseFloat trim rpc now1 now2 [] c = c"
| "runSchedule PublicKey parseFloat trim rpc now1 now2 (First # rest) (s, t1, t2) =
     (case runTask PublicKey parseFloat trim rpc now1 s t1 of
        (s', t1') \<Rightarrow> runSchedule PublicKey parseFloat trim rpc now1 now2 rest (s', t1', t2))"
| "runSchedule PublicKey parseFloat trim rpc now1 now2 (Second # rest) (s, t1, t2) =
     (case runTask PublicKey parseFloat trim rpc now2 s t2 of
        (s', t2') \<Rightarrow> runSchedule PublicKey parseFloat trim rpc now1 now2 rest (s', t1, t2'))"

subsection \<open>Two export requests in flight\<close>

text \<open>
  The same for the export handler: a task has not yet started, is suspended at the send
  with the calls made so far and the captured user id, or has finished. Each task is
  resumed with the outcome of its own send.
\<close>

datatype exportTask =
    ExportArrived "string option"
  | ExportSuspended "effect list" string
  | ExportFinished "effect list"

definition runExportTask :: "error + nat \<Rightarrow> state \<Rightarrow> exportTask \<Rightarrow> state \<times> exportTask" where
  "runExportTask sent s t =
     (case t of
        ExportArrived m \<Rightarrow>
          (case exportBegin s m of
             (effs, None) \<Rightarrow> (s, ExportFinished effs)
           | (effs, Some userId) \<Rightarrow> (s, ExportSuspended effs userId))
      | ExportSuspended effs userId \<Rightarrow>
          (case exportResume s userId sent of
             (s', effs') \<Rightarrow> (s', ExportFinished (effs @ effs')))
      | ExportFinished effs \<Rightarrow> (s, ExportFinished effs))"

fun runExportSchedule ::
  "error + nat \<Rightarrow> error + nat \<Rightarrow> turn list \<Rightarrow> state \<times> exportTask \<times> exportTask
     \<Rightarrow> state \<times> exportTask \<times> exportTask" where
  "runExportSchedule sent sent' [] c = c"
| "runExportSchedule sent sent' (First # rest) (s, t, t') =
     (case runExportTask sent s t of
        (s', t1) \<Rightarrow> runExportSchedule sent sent' rest (s', t1, t'))"
| "runExportSchedule sent sent' (Second # rest) (s, t, t') =
     (case runExportTask sent' s t' of
        (s', t2) \<Rightarrow> runExportSchedule sent sent' rest (s', t, t2))"

text \<open>
  Runs in which export handlers overlap: a configuration is the state together with the
  user ids captured by the export handlers that are suspended at their send. While they
  wait, any step of the bot may happen, further export handlers may start, and any of the
  waiting ones may be resumed.
\<close>

inductive running :: "(string \<Rightarrow> error + pubkey) \<Rightarrow> state \<times> string list \<Rightarrow> bool"
  for PublicKey :: "string \<Rightarrow> error + pubkey" where
  start: "running PublicKey (initial, [])"
| whole: "running PublicKey (s, waiting) \<Longrightarrow> step PublicKey s s' \<Longrightarrow>
            running PublicKey (s', waiting)"
| suspend: "running PublicKey (s, waiting) \<Longrightarrow> exportBegin s m = (effs, Some userId) \<Longrightarrow>
            running PublicKey (s, userId # waiting)"
| resume: "running PublicKey (s, waiting) \<Longrightarrow> userId \<in> set waiting \<Longrightarrow>
            running PublicKey (fst (exportResume s userId sent), remove1 userId waiting)"

text \<open>
  A text update is a well-formed transfer request for \<open>addr\<close> and \<open>amt\<close> when it passes
  every check of the handler that precedes the test for a pending proposal.
\<close>

definition wellFormedRequest ::
  "(string \<Rightarrow> error + pubkey) \<Rightarrow> (string \<Rightarrow> number) \<Rightarrow> (string \<Rightarrow> string) \<Rightarrow> update \<Rightarrow> string \<Rightarrow> string \<Rightarrow> number \<Rightarrow> bool" where
  "wellFormedRequest PublicKey parseFloat trim upd u addr amt =
     (fromId upd = Some u \<and> u \<noteq> []
      \<and> (case split_space (trim (messageText upd)) of
            [a, m] \<Rightarrow> a = addr \<and> addr \<noteq> [] \<and> m \<noteq> [] \<and> parseFloat m = amt
          | _ \<Rightarrow> False)
      \<and> \<not> isNaN amt \<and> \<not> num_le amt (Fin 0)
      \<and> (case PublicKey addr of Inl _ \<Rightarrow> False | Inr _ \<Rightarrow> True))"

subsection \<open>A concrete run\<close>

text \<open>
  User 42 generates a wallet, then either asks for the private key or proposes a transfer
  of 0.5 SOL to \<^verbatim>\<open>ADDR1\<close> out of a balance of 1 SOL. The parser of the example accepts
  the two addresses used; the number parser knows the two amounts used.
\<close>

definition alice :: keypair where
  "alice = \<lparr>publicKey = ''ALICE'', secretKey = [1, 2, 3]\<rparr>"

definition parseAddr :: "string \<Rightarrow> error + pubkey" where
  "parseAddr a =
     (if a = ''ADDR1'' \<or> a = ''ADDR2'' then Inr a else Inl (Error ''Invalid public key input''))"

text \<open>
  The texts of the example hold no white space other than ASCII's (TAB, LF, VT, FF, CR, SP),
  where \<^verbatim>\<open>String.prototype.trim\<close> strips exactly these from both ends.
\<close>

definition isSpace :: "char \<Rightarrow> bool" where
  "isSpace c = (c \<in> set [CHR 0x09, CHR 0x0A, CHR 0x0B, CHR 0x0C, CHR 0x0D, CHR 0x20])"

definition trimAscii :: "string \<Rightarrow> string" where
  "trimAscii t = rev (dropWhile isSpace (rev (dropWhile isSpace t)))"

definition parseNum :: "string \<Rightarrow> number" where
  "parseNum t = (if t = ''0.5'' then Fin (1 / 2) else if t = ''0.25'' then Fin (1 / 4) else NaN)"

definition ledger :: "rat \<Rightarrow> pubkey \<Rightarrow> error + balanceInfo" where
  "ledger b pk = Inr \<lparr>balance = Fin b, lamports = Fin (b * 1000000000)\<rparr>"

definition ledgerDown :: "pubkey \<Rightarrow> error + balanceInfo" where
  "ledgerDown pk = Inl (Error ''fetch failed'')"

definition accepted :: "keypair \<Rightarrow> pubkey \<Rightarrow> number \<Rightarrow> error + string" where
  "accepted kp to amt = Inr ''SIGNATURE''"

definition withWallet :: state where
  "withWallet = fst (handleGenerateWallet initial (Some ''42'') (Inr (''abandon ability'', alice)) (ledger 1))"

definition withReveal :: state where
  "withReveal = fst (handleExportPrivateKey withWallet (Some ''42'') (Inr 7))"

definition request1 :: update where
  "request1 = \<lparr>fromId = Some ''42'', messageText = ''ADDR1 0.5''\<rparr>"

definition request2 :: update where
  "request2 = \<lparr>fromId = Some ''42'', messageText = ''ADDR2 0.25''\<rparr>"

definition withProposal :: state where
  "withProposal = fst (onText parseAddr parseNum trimAscii withWallet request1 (ledger 1) 1000)"

text \<open>Both requests pass the test for a pending proposal before either is resumed.\<close>

definition overlappingRun :: "state \<times> task \<times> task" where
  "overlappingRun =
     runSchedule parseAddr parseNum trimAscii (ledger 1) 1000 1001 [First, Second, First, Second]
       (withWallet, Arrived request1, Arrived request2)"

text \<open>
  Two export requests of user 42: both pass the test for a pending entry before either is
  resumed; the sends return the message ids 7 and 8.
\<close>

definition overlappingExports :: "state \<times> exportTask \<times> exportTask" where
  "overlappingExports =
     runExportSchedule (Inr 7) (Inr 8) [First, Second, First, Second]
       (withWallet, ExportArrived (Some ''42''), ExportArrived (Some ''42''))"

section \<open>Invariants of runs\<close>

lemma consistent_initial: "consistent PublicKey initial"
  by (simp add: consistent_def initial_def)

lemma generate_consistent:
  "consistent PublicKey s \<Longrightarrow> consistent PublicKey (fst (handleGenerateWallet s m gen rpc))"
  by (auto simp add: consistent_def handleGenerateWallet_def Let_def split: sum.splits prod.splits)

lemma export_consistent:
  "consistent PublicKey s \<Longrightarrow> consistent PublicKey (fst (handleExportPrivateKey s m sent))"
  unfolding consistent_def handleExportPrivateKey_def exportBegin_def exportResume_def Let_def
  by (auto split: sum.splits option.splits if_splits) (metis option.distinct(1))

lemma retract_consistent:
  "consistent PublicKey s \<Longrightarrow> consistent PublicKey (fst (fireTimer s h deleted))"
  unfolding consistent_def fireTimer_def retractionCallback_def
  by (auto split: option.splits if_splits) (metis option.inject)

text \<open>What the first part of the text handler has established when it suspends.\<close>

lemma onTextBegin_locals:
  "onTextBegin PublicKey parseFloat trim s upd = Inr loc \<Longrightarrow>
     users s (tUserId loc) = Some (tSenderKeypair loc)
     \<and> pendingTransactions s (tUserId loc) = None
     \<and> (\<exists>k. PublicKey (tRecipientAddress loc) = Inr k)
     \<and> fromId upd = Some (tUserId loc)"
  unfolding onTextBegin_def Let_def
  by (auto split: option.splits if_splits sum.splits)

lemma propose_consistent:
  "consistent PublicKey s \<Longrightarrow>
     consistent PublicKey (fst (onText PublicKey parseFloat trim s upd rpc now))"
  unfolding onText_def onTextResume_def consistent_def
  by (auto split: sum.splits prod.splits if_splits dest!: onTextBegin_locals)

lemma confirm_consistent:
  "consistent PublicKey s \<Longrightarrow>
     consistent PublicKey (fst (handleConfirmSendSol PublicKey s m rpc submit))"
  unfolding handleConfirmSendSol_def confirmFailed_def consistent_def Let_def
  by (auto split: sum.splits prod.splits if_splits option.splits)

lemma cancel_consistent:
  "consistent PublicKey s \<Longrightarrow> consistent PublicKey (fst (handleCancelSendSol s m))"
  unfolding handleCancelSendSol_def consistent_def Let_def
  by (auto split: if_splits)

lemma sweep_consistent:
  "consistent PublicKey s \<Longrightarrow> consistent PublicKey (sweepPendingTransactions now s)"
  unfolding sweepPendingTransactions_def consistent_def
  by (auto split: if_splits option.splits)

lemma step_consistent:
  "step PublicKey s s' \<Longrightarrow> consistent PublicKey s \<Longrightarrow> consistent PublicKey s'"
  by (induction rule: step.induct)
     (simp_all add: generate_consistent export_consistent retract_consistent propose_consistent
        confirm_consistent cancel_consistent sweep_consistent)

lemma reachable_consistent: "reachable PublicKey s \<Longrightarrow> consistent PublicKey s"
  by (induction rule: reachable.induct) (simp_all add: consistent_initial step_consistent)

text \<open>No step removes or replaces a wallet.\<close>

lemma step_keeps_wallet:
  "step PublicKey s s' \<Longrightarrow> users s u = Some k \<Longrightarrow> users s' u = Some k"
proof (induction rule: step.induct)
  case generate
  then show ?case
    by (auto simp add: handleGenerateWallet_def Let_def split: sum.splits prod.splits)
next
  case export
  then show ?case
    by (auto simp add: handleExportPrivateKey_def exportBegin_def exportResume_def Let_def
        split: sum.splits option.splits)
next
  case retract
  then show ?case
    by (auto simp add: fireTimer_def retractionCallback_def split: option.splits)
next
  case propose
  then show ?case
    by (auto simp add: onText_def onTextResume_def split: sum.splits prod.splits)
next
  case confirm
  then show ?case
    by (auto simp add: handleConfirmSendSol_def confirmFailed_def Let_def
        split: sum.splits prod.splits option.splits)
next
  case cancel
  then show ?case
    by (auto simp add: handleCancelSendSol_def Let_def)
next
  case sweep
  then show ?case
    by (simp add: sweepPendingTransactions_def)
qed

lemma steps_keep_wallet:
  "(step PublicKey)\<^sup>*\<^sup>* s s' \<Longrightarrow> users s u = Some k \<Longrightarrow> users s' u = Some k"
  by (induction rule: rtranclp_induct) (auto dest: step_keeps_wallet)

lemma reachable_proposal:
  assumes "reachable PublicKey s" and "pendingTransactions s u = Some p"
  shows "users s u \<noteq> None \<and> (\<exists>k. PublicKey (recipientAddress p) = Inr k)"
  using reachable_consistent [OF assms(1)] assms(2) unfolding consistent_def by blast

subsection \<open>Runs with overlapping export handlers\<close>

text \<open>
  What survives the overlap: an entry in \<^verbatim>\<open>pendingDeletions\<close> belongs to a user with a
  wallet, and so does every suspended export handler.
\<close>

lemma exportBegin_suspended:
  "exportBegin s m = (effs, Some u) \<Longrightarrow>
     m = Some u \<and> u \<noteq> [] \<and> users s u \<noteq> None \<and> pendingDeletions s u = None"
  unfolding exportBegin_def Let_def validateUserId_def
  by (auto split: option.splits if_splits)

lemma exportResume_users: "users (fst (exportResume s u sent)) = users s"
  by (simp add: exportResume_def split: sum.splits)

lemma exportResume_entries:
  "pendingDeletions (fst (exportResume s u sent)) v \<noteq> None \<Longrightarrow>
     v = u \<or> pendingDeletions s v \<noteq> None"
  by (auto simp add: exportResume_def split: sum.splits if_splits)

lemma step_entry_wallet:
  assumes "step PublicKey s s'"
    and "\<forall>u. pendingDeletions s u \<noteq> None \<longrightarrow> users s u \<noteq> None"
  shows "\<forall>u. pendingDeletions s' u \<noteq> None \<longrightarrow> users s' u \<noteq> None"
  using assms
proof (induction rule: step.induct)
  case generate
  then show ?case
    by (auto simp add: handleGenerateWallet_def Let_def split: sum.splits prod.splits)
next
  case export
  then show ?case
    by (auto simp add: handleExportPrivateKey_def exportBegin_def exportResume_def Let_def
        split: sum.splits option.splits if_splits)
next
  case retract
  then show ?case
    by (auto simp add: fireTimer_def retractionCallback_def split: option.splits if_splits)
next
  case propose
  then show ?case
    by (auto simp add: onText_def onTextResume_def split: sum.splits prod.splits)
next
  case confirm
  then show ?case
    by (auto simp add: handleConfirmSendSol_def confirmFailed_def Let_def
        split: sum.splits prod.splits option.splits)
next
  case cancel
  then show ?case
    by (auto simp add: handleCancelSendSol_def Let_def)
next
  case sweep
  then show ?case
    by (simp add: sweepPendingTransactions_def)
qed

lemma running_wallets:
  "running PublicKey c \<Longrightarrow>
     (\<forall>u. pendingDeletions (fst c) u \<noteq> None \<longrightarrow> users (fst c) u \<noteq> None)
     \<and> (\<forall>u \<in> set (snd c). users (fst c) u \<noteq> None)"
proof (induction rule: running.induct)
  case start
  then show ?case by (simp add: initial_def)
next
  case (whole s waiting s')
  have "users s' u \<noteq> None" if "u \<in> set waiting" for u
  proof -
    from whole.IH that obtain k where "users s u = Some k" by auto
    with whole.hyps(2) have "users s' u = Some k" by (rule step_keeps_wallet)
    then show ?thesis by simp
  qed
  moreover have "\<forall>u. pendingDeletions s' u \<noteq> None \<longrightarrow> users s' u \<noteq> None"
    using whole.hyps(2) whole.IH by (auto dest: step_entry_wallet)
  ultimately show ?case by simp
next
  case (suspend s waiting m effs userId)
  then show ?case by (auto dest: exportBegin_suspended)
next
  case (resume s waiting userId sent)
  have sub: "set (remove1 userId waiting) \<subseteq> set waiting" by (rule set_remove1_subset)
  have "users s u \<noteq> None" if "pendingDeletions (fst (exportResume s userId sent)) u \<noteq> None"
    for u
  proof -
    from exportResume_entries [OF that] have "u = userId \<or> pendingDeletions s u \<noteq> None" .
    with resume show ?thesis by auto
  qed
  moreover have "users s u \<noteq> None" if "u \<in> set (remove1 userId waiting)" for u
    using that sub resume.IH by auto
  ultimately show ?case by (simp add: exportResume_users)
qed

lemma reachable_running: "reachable PublicKey s \<Longrightarrow> running PublicKey (s, [])"
  by (induction rule: reachable.induct) (auto intro: running.start running.whole)

lemma exportBegin_rejects:
  assumes "u \<noteq> []" and "pendingDeletions s u \<noteq> None" and "users s u \<noteq> None"
  shows "exportBegin s (Some u) = ([AnswerCbQuery [], SendMessage PrivateKeyWait True], None)"
  using assms
  by (auto simp add: exportBegin_def validateUserId_def sendMessageWithKeyboard_def hasWallet_def)

section \<open>The text handler on a well-formed request\<close>

lemma onTextBegin_wellFormed:
  assumes "wellFormedRequest PublicKey parseFloat trim upd u addr amt" and "users s u = Some kp"
  shows "onTextBegin PublicKey parseFloat trim s upd =
     (if pendingTransactions s u \<noteq> None then Inl [Reply AlreadyPendingTransaction]
      else Inr \<lparr>tUserId = u, tRecipientAddress = addr, tAmount = amt, tSenderKeypair = kp\<rparr>)"
  using assms unfolding wellFormedRequest_def onTextBegin_def Let_def
  by (auto split: list.splits sum.splits)

lemma onText_pending_unchanged:
  assumes "fromId upd = Some u" and "pendingTransactions s u \<noteq> None"
  shows "fst (onText PublicKey parseFloat trim s upd rpc now) = s"
proof (cases "onTextBegin PublicKey parseFloat trim s upd")
  case (Inl effs)
  then show ?thesis by (simp add: onText_def)
next
  case (Inr loc)
  from onTextBegin_locals [OF Inr] assms have False by auto
  then show ?thesis ..
qed

text \<open>A task that is given two turns in a row is the handler run without interruption.\<close>

lemma runSchedule_alone:
  "runSchedule PublicKey parseFloat trim rpc now1 now2 [First, First] (s, Arrived upd, t2) =
     (fst (onText PublicKey parseFloat trim s upd rpc now1),
      Finished (snd (onText PublicKey parseFloat trim s upd rpc now1)), t2)"
  by (simp add: runTask_def onText_def split: sum.splits prod.splits)

section \<open>Facts about the concrete run\<close>

lemma withWallet_eq: "withWallet = initial\<lparr>users := [''42'' \<mapsto> alice]\<rparr>"
  by (simp add: withWallet_def handleGenerateWallet_def validateUserId_def initial_def
      getBalance_def ledger_def Let_def)

lemma request1_wellFormed:
  "wellFormedRequest parseAddr parseNum trimAscii request1 ''42'' ''ADDR1'' (Fin (1 / 2))"
  by (simp add: wellFormedRequest_def request1_def trimAscii_def isSpace_def parseAddr_def parseNum_def)

lemma request2_wellFormed:
  "wellFormedRequest parseAddr parseNum trimAscii request2 ''42'' ''ADDR2'' (Fin (1 / 4))"
  by (simp add: wellFormedRequest_def request2_def trimAscii_def isSpace_def parseAddr_def parseNum_def)

lemma withProposal_eq:
  "withProposal = withWallet\<lparr>pendingTransactions :=
     [''42'' \<mapsto> \<lparr>recipientAddress = ''ADDR1'', amount = Fin (1 / 2), timestamp = 1000\<rparr>]\<rparr>"
  by (simp add: withProposal_def onText_def
      onTextBegin_wellFormed [OF request1_wellFormed, of _ alice]
      onTextResume_def getBalance_def ledger_def withWallet_eq initial_def)

lemma withReveal_eq:
  "withReveal = withWallet\<lparr>pendingDeletions := [''42'' \<mapsto> 0],
     timers := [0 \<mapsto> \<lparr>forUser = ''42'', messageId = 7, delay = 30000\<rparr>], nextTimer := Suc 0\<rparr>"
  by (simp add: withReveal_def handleExportPrivateKey_def exportBegin_def exportResume_def
      validateUserId_def withWallet_eq initial_def Let_def)

lemma reachable_withWallet: "reachable PublicKey withWallet"
  unfolding withWallet_def by (rule reachable.advance [OF reachable.start step.generate])

lemma reachable_withProposal: "reachable parseAddr withProposal"
  unfolding withProposal_def by (rule reachable.advance [OF reachable_withWallet step.propose])

lemma reachable_withReveal: "reachable PublicKey withReveal"
  unfolding withReveal_def by (rule reachable.advance [OF reachable_withWallet step.export])

lemma overlappingExports_state:
  "fst overlappingExports = withWallet\<lparr>pendingDeletions := [''42'' \<mapsto> 1],
     timers := [0 \<mapsto> \<lparr>forUser = ''42'', messageId = 7, delay = 30000\<rparr>,
                1 \<mapsto> \<lparr>forUser = ''42'', messageId = 8, delay = 30000\<rparr>],
     nextTimer := 2\<rparr>"
  by (simp add: overlappingExports_def runExportTask_def exportBegin_def exportResume_def
      validateUserId_def withWallet_eq initial_def Let_def numeral_2_eq_2)

lemma running_overlappingExports: "running PublicKey (fst overlappingExports, [])"
proof -
  have w: "running PublicKey (withWallet, [])"
    by (rule reachable_running [OF reachable_withWallet])
  have b: "exportBegin withWallet (Some ''42'') =
      ([AnswerCbQuery [], SendMessage (PrivateKeyWarning [1, 2, 3]) True], Some ''42'')"
    by (simp add: exportBegin_def validateUserId_def withWallet_eq initial_def alice_def Let_def)
  from running.suspend [OF w b] have "running PublicKey (withWallet, [''42''])" .
  from running.suspend [OF this b] have "running PublicKey (withWallet, [''42'', ''42''])" .
  from running.resume [OF this, of "''42''" "Inr 7"]
  have "running PublicKey (fst (exportResume withWallet ''42'' (Inr 7)), [''42''])" by simp
  from running.resume [OF this, of "''42''" "Inr 8"]
  have "running PublicKey
      (fst (exportResume (fst (exportResume withWallet ''42'' (Inr 7))) ''42'' (Inr 8)), [])"
    by simp
  moreover have "fst (exportResume (fst (exportResume withWallet ''42'' (Inr 7))) ''42'' (Inr 8))
      = fst overlappingExports"
    by (simp add: overlappingExports_def runExportTask_def exportBegin_def exportResume_def
      validateUserId_def withWallet_eq initial_def Let_def)
  ultimately show ?thesis by simp
qed

section \<open>The claims\<close>

text \<open>
  C1. The pending-proposal dictionary holds at most one proposal per user id (it is a map).
  In every state a run can reach in which user \<open>u\<close> has a pending proposal \<open>p\<close>, a
  text update from \<open>u\<close>, whatever its text, leaves the whole state as it is, so \<open>p\<close> keeps
  its recipient, amount and time stamp and no second proposal is stored; and a well-formed
  transfer request from \<open>u\<close> is answered with the already-pending reply and nothing else.
\<close>

theorem propose_while_pending_rejected:
  assumes "reachable PublicKey s" and "pendingTransactions s u = Some p"
  shows "(fromId upd = Some u \<longrightarrow>
            fst (onText PublicKey parseFloat trim s upd rpc now) = s
          \<and> pendingTransactions (fst (onText PublicKey parseFloat trim s upd rpc now)) u = Some p)
       \<and> (wellFormedRequest PublicKey parseFloat trim upd u addr amt \<longrightarrow>
            onText PublicKey parseFloat trim s upd rpc now = (s, [Reply AlreadyPendingTransaction]))"
proof -
  from reachable_proposal [OF assms] have "users s u \<noteq> None" by simp
  then obtain kp where kp: "users s u = Some kp" by auto
  have a: "fromId upd = Some u \<Longrightarrow> fst (onText PublicKey parseFloat trim s upd rpc now) = s"
    using assms(2) by (simp add: onText_pending_unchanged)
  have b: "wellFormedRequest PublicKey parseFloat trim upd u addr amt \<Longrightarrow>
      onText PublicKey parseFloat trim s upd rpc now = (s, [Reply AlreadyPendingTransaction])"
    using assms(2) kp by (simp add: onText_def onTextBegin_wellFormed)
  from a b assms(2) show ?thesis by simp
qed

theorem propose_while_pending_rejected_witness:
  "reachable parseAddr withProposal
   \<and> pendingTransactions withProposal ''42'' =
       Some \<lparr>recipientAddress = ''ADDR1'', amount = Fin (1 / 2), timestamp = 1000\<rparr>
   \<and> fromId request2 = Some ''42''
   \<and> wellFormedRequest parseAddr parseNum trimAscii request2 ''42'' ''ADDR2'' (Fin (1 / 4))
   \<and> onText parseAddr parseNum trimAscii withProposal request2 (ledger 1) 2000 =
       (withProposal, [Reply AlreadyPendingTransaction])"
proof -
  have p: "pendingTransactions withProposal ''42'' =
       Some \<lparr>recipientAddress = ''ADDR1'', amount = Fin (1 / 2), timestamp = 1000\<rparr>"
    by (simp add: withProposal_eq)
  have f: "fromId request2 = Some ''42''" by (simp add: request2_def)
  show ?thesis
    using propose_while_pending_rejected [where upd = request2 and parseFloat = parseNum
        and trim = trimAscii and rpc = "ledger 1" and now = 2000 and addr = "''ADDR2''"
        and amt = "Fin (1 / 4)", OF reachable_withProposal p]
      reachable_withProposal p f request2_wellFormed
    by simp
qed

text \<open>
  C2. In a reachable state where user \<open>u\<close> has a pending proposal \<open>p\<close>, when the balance
  fetched by the confirm handler is strictly less than the amount of \<open>p\<close>, the handler
  deletes the proposal and answers with the insufficient-balance message that carries the
  fetched balance; a confirm that follows, whatever the ledger says then, answers that the
  transaction is expired or invalid and changes nothing.
\<close>

theorem confirm_insufficient_balance_removes:
  assumes "reachable PublicKey s" and "u \<noteq> []"
    and "pendingTransactions s u = Some p" and "users s u = Some kp"
    and "rpc (publicKey kp) = Inr b" and "num_less (balance b) (amount p)"
  shows "handleConfirmSendSol PublicKey s (Some u) rpc submit =
           (s\<lparr>pendingTransactions := (pendingTransactions s)(u := None)\<rparr>,
            [AnswerCbQuery ''Processing transaction...'',
             EditMessageText (InsufficientBalanceAtConfirm (balance b))])
       \<and> handleConfirmSendSol PublicKey
           (s\<lparr>pendingTransactions := (pendingTransactions s)(u := None)\<rparr>) (Some u) rpc' submit' =
           (s\<lparr>pendingTransactions := (pendingTransactions s)(u := None)\<rparr>,
            [AnswerCbQuery ''Processing transaction...'',
             EditMessageText TransactionExpiredOrInvalid])"
proof -
  from reachable_proposal [OF assms(1,3)]
  obtain k where "PublicKey (recipientAddress p) = Inr k" by blast
  with assms show ?thesis
    by (simp add: handleConfirmSendSol_def validateUserId_def getBalance_def)
qed

theorem confirm_insufficient_balance_removes_witness:
  "reachable parseAddr withProposal \<and> ''42'' \<noteq> []
   \<and> pendingTransactions withProposal ''42'' =
       Some \<lparr>recipientAddress = ''ADDR1'', amount = Fin (1 / 2), timestamp = 1000\<rparr>
   \<and> users withProposal ''42'' = Some alice
   \<and> ledger (1 / 10) (publicKey alice) = Inr \<lparr>balance = Fin (1 / 10), lamports = Fin 100000000\<rparr>
   \<and> num_less (Fin (1 / 10)) (Fin (1 / 2))
   \<and> handleConfirmSendSol parseAddr withProposal (Some ''42'') (ledger (1 / 10)) accepted =
       (withProposal\<lparr>pendingTransactions := (pendingTransactions withProposal)(''42'' := None)\<rparr>,
        [AnswerCbQuery ''Processing transaction...'',
         EditMessageText (InsufficientBalanceAtConfirm (Fin (1 / 10)))])
   \<and> handleConfirmSendSol parseAddr
        (withProposal\<lparr>pendingTransactions := (pendingTransactions withProposal)(''42'' := None)\<rparr>)
        (Some ''42'') (ledger 1) accepted =
       (withProposal\<lparr>pendingTransactions := (pendingTransactions withProposal)(''42'' := None)\<rparr>,
        [AnswerCbQuery ''Processing transaction...'', EditMessageText TransactionExpiredOrInvalid])"
proof -
  have n: "''42'' \<noteq> []" by simp
  have p: "pendingTransactions withProposal ''42'' =
       Some \<lparr>recipientAddress = ''ADDR1'', amount = Fin (1 / 2), timestamp = 1000\<rparr>"
    by (simp add: withProposal_eq)
  have k: "users withProposal ''42'' = Some alice"
    by (simp add: withProposal_eq withWallet_eq)
  have l: "ledger (1 / 10) (publicKey alice) =
      Inr \<lparr>balance = Fin (1 / 10), lamports = Fin 100000000\<rparr>"
    by (simp add: ledger_def)
  have m: "num_less (Fin (1 / 10)) (Fin (1 / 2))" by simp
  have m': "num_less (balance \<lparr>balance = Fin (1 / 10), lamports = Fin 100000000\<rparr>)
      (amount \<lparr>recipientAddress = ''ADDR1'', amount = Fin (1 / 2), timestamp = 1000\<rparr>)"
    by simp
  note c = confirm_insufficient_balance_removes [where PublicKey = parseAddr
      and s = withProposal and u = "''42''" and kp = alice and rpc = "ledger (1 / 10)"
      and submit = accepted and rpc' = "ledger 1" and submit' = accepted,
      OF reachable_withProposal n p k l m', simplified balanceInfo.select_convs]
  from reachable_withProposal n p k l m c show ?thesis by blast
qed

text \<open>
  C3. A confirm for a user without a pending proposal answers that the transaction is
  expired or invalid and changes nothing. In a reachable state where \<open>u\<close> has a pending
  proposal \<open>p\<close>, when the fetched balance is not less than the amount and the submission
  returns a signature, the handler deletes the proposal and answers with the success
  message that carries the signature; a confirm that follows answers that the transaction
  is expired or invalid.
\<close>

theorem confirm_outcomes:
  "(u \<noteq> [] \<and> pendingTransactions t u = None \<longrightarrow>
      handleConfirmSendSol PublicKey t (Some u) rpcT submitT =
        (t, [AnswerCbQuery ''Processing transaction...'',
              EditMessageText TransactionExpiredOrInvalid]))
   \<and> (reachable PublicKey s \<and> u \<noteq> [] \<and> pendingTransactions s u = Some p
        \<and> users s u = Some kp
        \<and> rpc (publicKey kp) = Inr b \<and> \<not> num_less (balance b) (amount p)
        \<and> (\<forall>rk. PublicKey (recipientAddress p) = Inr rk \<longrightarrow> submit kp rk (amount p) = Inr sig) \<longrightarrow>
      handleConfirmSendSol PublicKey s (Some u) rpc submit =
        (s\<lparr>pendingTransactions := (pendingTransactions s)(u := None)\<rparr>,
         [AnswerCbQuery ''Processing transaction...'',
          EditMessageText (SolSentSuccessfully (amount p) (recipientAddress p) sig)])
      \<and> handleConfirmSendSol PublicKey
           (s\<lparr>pendingTransactions := (pendingTransactions s)(u := None)\<rparr>) (Some u) rpc' submit' =
           (s\<lparr>pendingTransactions := (pendingTransactions s)(u := None)\<rparr>,
            [AnswerCbQuery ''Processing transaction...'',
             EditMessageText TransactionExpiredOrInvalid]))"
proof -
  have none: "handleConfirmSendSol PublicKey t (Some u) rpcT submitT =
        (t, [AnswerCbQuery ''Processing transaction...'',
              EditMessageText TransactionExpiredOrInvalid])"
    if "u \<noteq> []" and "pendingTransactions t u = None"
    using that by (simp add: handleConfirmSendSol_def validateUserId_def split: option.splits)
  have sent: "handleConfirmSendSol PublicKey s (Some u) rpc submit =
        (s\<lparr>pendingTransactions := (pendingTransactions s)(u := None)\<rparr>,
         [AnswerCbQuery ''Processing transaction...'',
          EditMessageText (SolSentSuccessfully (amount p) (recipientAddress p) sig)])
      \<and> handleConfirmSendSol PublicKey
           (s\<lparr>pendingTransactions := (pendingTransactions s)(u := None)\<rparr>) (Some u) rpc' submit' =
           (s\<lparr>pendingTransactions := (pendingTransactions s)(u := None)\<rparr>,
            [AnswerCbQuery ''Processing transaction...'',
             EditMessageText TransactionExpiredOrInvalid])"
    if r: "reachable PublicKey s" and u: "u \<noteq> []" and p: "pendingTransactions s u = Some p"
      and k: "users s u = Some kp" and b: "rpc (publicKey kp) = Inr b"
      and enough: "\<not> num_less (balance b) (amount p)"
      and ok: "\<forall>rk. PublicKey (recipientAddress p) = Inr rk \<longrightarrow> submit kp rk (amount p) = Inr sig"
  proof -
    from reachable_proposal [OF r p]
    obtain rk where rk: "PublicKey (recipientAddress p) = Inr rk" by blast
    with ok have "submit kp rk (amount p) = Inr sig" by simp
    with rk u p k b enough show ?thesis
      by (simp add: handleConfirmSendSol_def validateUserId_def getBalance_def sendSOL_def)
  qed
  from none sent show ?thesis by blast
qed

theorem confirm_outcomes_witness:
  "(''42'' \<noteq> [] \<and> pendingTransactions withWallet ''42'' = None
      \<and> handleConfirmSendSol parseAddr withWallet (Some ''42'') (ledger 1) accepted =
        (withWallet, [AnswerCbQuery ''Processing transaction...'',
              EditMessageText TransactionExpiredOrInvalid]))
   \<and> (reachable parseAddr withProposal
        \<and> pendingTransactions withProposal ''42'' =
            Some \<lparr>recipientAddress = ''ADDR1'', amount = Fin (1 / 2), timestamp = 1000\<rparr>
        \<and> users withProposal ''42'' = Some alice
        \<and> ledger 1 (publicKey alice) = Inr \<lparr>balance = Fin 1, lamports = Fin 1000000000\<rparr>
        \<and> \<not> num_less (Fin 1) (Fin (1 / 2))
        \<and> parseAddr ''ADDR1'' = Inr ''ADDR1''
        \<and> accepted alice ''ADDR1'' (Fin (1 / 2)) = Inr ''SIGNATURE''
        \<and> handleConfirmSendSol parseAddr withProposal (Some ''42'') (ledger 1) accepted =
            (withProposal\<lparr>pendingTransactions := (pendingTransactions withProposal)(''42'' := None)\<rparr>,
             [AnswerCbQuery ''Processing transaction...'',
              EditMessageText (SolSentSuccessfully (Fin (1 / 2)) ''ADDR1'' ''SIGNATURE'')])
        \<and> handleConfirmSendSol parseAddr
             (withProposal\<lparr>pendingTransactions := (pendingTransactions withProposal)(''42'' := None)\<rparr>)
             (Some ''42'') (ledger 1) accepted =
            (withProposal\<lparr>pendingTransactions := (pendingTransactions withProposal)(''42'' := None)\<rparr>,
             [AnswerCbQuery ''Processing transaction...'',
              EditMessageText TransactionExpiredOrInvalid]))"
proof -
  have n: "''42'' \<noteq> []" by simp
  have w: "pendingTransactions withWallet ''42'' = None"
    by (simp add: withWallet_eq initial_def)
  have p: "pendingTransactions withProposal ''42'' =
       Some \<lparr>recipientAddress = ''ADDR1'', amount = Fin (1 / 2), timestamp = 1000\<rparr>"
    by (simp add: withProposal_eq)
  have k: "users withProposal ''42'' = Some alice"
    by (simp add: withProposal_eq withWallet_eq)
  have l: "ledger 1 (publicKey alice) = Inr \<lparr>balance = Fin 1, lamports = Fin 1000000000\<rparr>"
    by (simp add: ledger_def)
  have e: "\<not> num_less (Fin 1) (Fin (1 / 2))" by simp
  have a: "\<forall>rk. parseAddr ''ADDR1'' = Inr rk \<longrightarrow> accepted alice rk (Fin (1 / 2)) = Inr ''SIGNATURE''"
    by (simp add: accepted_def)
  note both = confirm_outcomes [where PublicKey = parseAddr and t = withWallet
        and s = withProposal and u = "''42''" and kp = alice and rpcT = "ledger 1"
        and rpc = "ledger 1" and submitT = accepted and submit = accepted and rpc' = "ledger 1"
        and submit' = accepted
        and p = "\<lparr>recipientAddress = ''ADDR1'', amount = Fin (1 / 2), timestamp = 1000\<rparr>"
        and b = "\<lparr>balance = Fin 1, lamports = Fin 1000000000\<rparr>" and sig = "''SIGNATURE''"]
  have c1: "handleConfirmSendSol parseAddr withWallet (Some ''42'') (ledger 1) accepted =
        (withWallet, [AnswerCbQuery ''Processing transaction...'',
              EditMessageText TransactionExpiredOrInvalid])"
    using both n w by blast
  have c2: "handleConfirmSendSol parseAddr withProposal (Some ''42'') (ledger 1) accepted =
            (withProposal\<lparr>pendingTransactions := (pendingTransactions withProposal)(''42'' := None)\<rparr>,
             [AnswerCbQuery ''Processing transaction...'',
              EditMessageText (SolSentSuccessfully (Fin (1 / 2)) ''ADDR1'' ''SIGNATURE'')])
        \<and> handleConfirmSendSol parseAddr
             (withProposal\<lparr>pendingTransactions := (pendingTransactions withProposal)(''42'' := None)\<rparr>)
             (Some ''42'') (ledger 1) accepted =
            (withProposal\<lparr>pendingTransactions := (pendingTransactions withProposal)(''42'' := None)\<rparr>,
             [AnswerCbQuery ''Processing transaction...'',
              EditMessageText TransactionExpiredOrInvalid])"
    using both [simplified balanceInfo.select_convs proposal.select_convs]
      reachable_withProposal n p k l e a by blast
  have a1: "parseAddr ''ADDR1'' = Inr ''ADDR1''" by (simp add: parseAddr_def)
  have a2: "accepted alice ''ADDR1'' (Fin (1 / 2)) = Inr ''SIGNATURE''" by (simp add: accepted_def)
  from n w c1 reachable_withProposal p k l e a1 a2 c2 show ?thesis by blast
qed

text \<open>
  C4 (as the code has it). \<^verbatim>\<open>pendingDeletions\<close> holds at most one entry per user id (it
  is a map). In every run of the bot, also when export handlers overlap each other and the
  other steps, an export request from a user who has an entry there ends in its first part:
  it is answered with the wait message only and the state is unchanged, so no timer is armed
  and the message that shows the key is not sent. In runs where every handler finishes
  before the next step starts, no two armed retraction timers belong to the same user.
\<close>

theorem export_rejected_while_entry_pending:
  "(reachable PublicKey t \<longrightarrow>
      (\<forall>h h' r r'. timers t h = Some r \<and> timers t h' = Some r' \<and> forUser r = forUser r'
         \<longrightarrow> h = h'))
   \<and> (running PublicKey (s, waiting) \<and> u \<noteq> [] \<and> pendingDeletions s u \<noteq> None \<longrightarrow>
        exportBegin s (Some u) = ([AnswerCbQuery [], SendMessage PrivateKeyWait True], None)
      \<and> handleExportPrivateKey s (Some u) sent =
          (s, [AnswerCbQuery [], SendMessage PrivateKeyWait True]))"
proof -
  have one: "\<forall>h h' r r'. timers t h = Some r \<and> timers t h' = Some r' \<and> forUser r = forUser r'
         \<longrightarrow> h = h'" if "reachable PublicKey t"
    using reachable_consistent [OF that] unfolding consistent_def by (metis option.inject)
  have two: "exportBegin s (Some u) = ([AnswerCbQuery [], SendMessage PrivateKeyWait True], None)
      \<and> handleExportPrivateKey s (Some u) sent =
          (s, [AnswerCbQuery [], SendMessage PrivateKeyWait True])"
    if r: "running PublicKey (s, waiting)" and u: "u \<noteq> []" and d: "pendingDeletions s u \<noteq> None"
  proof -
    from running_wallets [OF r] d have "users s u \<noteq> None" by simp
    from exportBegin_rejects [OF u d this] show ?thesis
      by (simp add: handleExportPrivateKey_def)
  qed
  from one two show ?thesis by blast
qed

theorem export_rejected_while_entry_pending_witness:
  "reachable parseAddr withReveal
   \<and> timers withReveal 0 = Some \<lparr>forUser = ''42'', messageId = 7, delay = 30000\<rparr>
   \<and> running parseAddr (fst overlappingExports, []) \<and> ''42'' \<noteq> []
   \<and> pendingDeletions (fst overlappingExports) ''42'' \<noteq> None
   \<and> exportBegin (fst overlappingExports) (Some ''42'') =
       ([AnswerCbQuery [], SendMessage PrivateKeyWait True], None)
   \<and> handleExportPrivateKey (fst overlappingExports) (Some ''42'') (Inr 9) =
       (fst overlappingExports, [AnswerCbQuery [], SendMessage PrivateKeyWait True])"
proof -
  have n: "''42'' \<noteq> []" by simp
  have t: "timers withReveal 0 = Some \<lparr>forUser = ''42'', messageId = 7, delay = 30000\<rparr>"
    by (simp add: withReveal_eq)
  have d: "pendingDeletions (fst overlappingExports) ''42'' \<noteq> None"
    by (simp add: overlappingExports_state)
  have r: "reachable parseAddr withReveal" by (rule reachable_withReveal)
  have o: "running parseAddr (fst overlappingExports, [])" by (rule running_overlappingExports)
  note c = export_rejected_while_entry_pending [where PublicKey = parseAddr
      and t = withReveal and s = "fst overlappingExports" and waiting = "[]"
      and u = "''42''" and sent = "Inr 9"]
  from c o n d have e: "exportBegin (fst overlappingExports) (Some ''42'') =
       ([AnswerCbQuery [], SendMessage PrivateKeyWait True], None)
   \<and> handleExportPrivateKey (fst overlappingExports) (Some ''42'') (Inr 9) =
       (fst overlappingExports, [AnswerCbQuery [], SendMessage PrivateKeyWait True])"
    by blast
  from r t o n d e show ?thesis by blast
qed

text \<open>
  C4 as stated fails: the test for a pending entry and the store of the entry are separated
  by the awaited send of the key message. Two export requests of user 42 that both pass
  the test before either is resumed both show the key, and afterwards two retraction
  timers are armed for the one user at the same time.
\<close>

theorem overlapping_exports_counterexample:
  "timers (fst overlappingExports) 0 = Some \<lparr>forUser = ''42'', messageId = 7, delay = 30000\<rparr>
   \<and> timers (fst overlappingExports) 1 = Some \<lparr>forUser = ''42'', messageId = 8, delay = 30000\<rparr>
   \<and> fst (snd overlappingExports) =
       ExportFinished [AnswerCbQuery [], SendMessage (PrivateKeyWarning [1, 2, 3]) True]
   \<and> snd (snd overlappingExports) =
       ExportFinished [AnswerCbQuery [], SendMessage (PrivateKeyWarning [1, 2, 3]) True]"
  by (simp add: overlappingExports_def runExportTask_def exportBegin_def exportResume_def
      validateUserId_def withWallet_eq initial_def alice_def Let_def)

text \<open>
  C5. When an armed retraction timer fires, the entry of its user is absent from
  \<^verbatim>\<open>pendingDeletions\<close> afterwards, whether deleting the message succeeded or threw; the
  state after a failed deletion is the state after a successful one, and the failure shows
  only as a line on the error console, after which the callback ends normally.
\<close>

theorem retraction_clears_entry:
  assumes "timers s h = Some r"
  shows "pendingDeletions (fst (fireTimer s h deleted)) (forUser r) = None
     \<and> fst (fireTimer s h (Inl e)) = fst (fireTimer s h (Inr ()))
     \<and> snd (fireTimer s h (Inl e)) =
         [DeleteMessage (messageId r), ConsoleError ''Failed to delete private key message:'' e]"
  using assms by (simp add: fireTimer_def retractionCallback_def split: sum.splits)

theorem retraction_clears_entry_witness:
  "timers withReveal 0 = Some \<lparr>forUser = ''42'', messageId = 7, delay = 30000\<rparr>
   \<and> pendingDeletions withReveal ''42'' = Some 0
   \<and> pendingDeletions (fst (fireTimer withReveal 0 (Inl (Error ''message not found'')))) ''42'' = None
   \<and> fst (fireTimer withReveal 0 (Inl (Error ''message not found''))) =
       fst (fireTimer withReveal 0 (Inr ()))
   \<and> snd (fireTimer withReveal 0 (Inl (Error ''message not found''))) =
       [DeleteMessage 7,
        ConsoleError ''Failed to delete private key message:'' (Error ''message not found'')]"
proof -
  have d: "pendingDeletions withReveal ''42'' = Some 0" by (simp add: withReveal_eq)
  have t: "timers withReveal 0 = Some \<lparr>forUser = ''42'', messageId = 7, delay = 30000\<rparr>"
    by (simp add: withReveal_eq)
  note c = retraction_clears_entry [where deleted = "Inl (Error ''message not found'')"
      and e = "Error ''message not found''", OF t, simplified retraction.select_convs]
  from d t c show ?thesis by blast
qed

text \<open>
  C6. After a provisioning request for \<open>u\<close> whose key generation did not throw, \<open>u\<close> has a
  wallet (the generated one if there was none, the old one otherwise), and a second
  request, whatever keypair the generator would produce for it, leaves the state as it is
  and answers that the wallet already exists.
\<close>

theorem provision_idempotent:
  assumes "u \<noteq> []" and "s1 = fst (handleGenerateWallet s (Some u) (Inr (mn, kp)) rpc1)"
  shows "(users s u = None \<longrightarrow> users s1 u = Some kp)
     \<and> (\<forall>k. users s u = Some k \<longrightarrow> users s1 u = Some k)
     \<and> handleGenerateWallet s1 (Some u) gen2 rpc2 =
         (s1, [AnswerCbQuery ''Generating wallet...'', SendMessage WalletAlreadyExists True])"
  using assms
  by (auto simp add: handleGenerateWallet_def validateUserId_def sendMessageWithKeyboard_def
      hasWallet_def Let_def split: sum.splits prod.splits)

theorem provision_idempotent_witness:
  "''42'' \<noteq> [] \<and> users initial ''42'' = None \<and> users withWallet ''42'' = Some alice
   \<and> handleGenerateWallet withWallet (Some ''42'')
        (Inr (''zoo zone'', \<lparr>publicKey = ''OTHER'', secretKey = [9]\<rparr>)) (ledger 1) =
       (withWallet, [AnswerCbQuery ''Generating wallet...'', SendMessage WalletAlreadyExists True])"
proof -
  have n: "''42'' \<noteq> []" by simp
  have i: "users initial ''42'' = None" by (simp add: initial_def)
  show ?thesis
    using provision_idempotent [OF n withWallet_def, of
        "Inr (''zoo zone'', \<lparr>publicKey = ''OTHER'', secretKey = [9]\<rparr>)" "ledger 1"] i
    by simp
qed

text \<open>
  C7. When a well-formed transfer request from \<open>u\<close>, who has a wallet and no pending
  proposal, asks for more than the balance the handler has just fetched, the handler
  answers with the insufficient-balance message that carries the fetched balance and the
  requested amount, the state is unchanged, and \<open>u\<close> still has no pending proposal.
\<close>

theorem propose_insufficient_balance:
  assumes "wellFormedRequest PublicKey parseFloat trim upd u addr amt"
    and "users s u = Some kp" and "pendingTransactions s u = None"
    and "rpc (publicKey kp) = Inr b" and "num_less (balance b) amt"
  shows "onText PublicKey parseFloat trim s upd rpc now =
           (s, [Reply (InsufficientBalanceAtPropose (balance b) amt)])
       \<and> pendingTransactions (fst (onText PublicKey parseFloat trim s upd rpc now)) u = None"
  using assms by (simp add: onText_def onTextBegin_wellFormed onTextResume_def getBalance_def)

theorem propose_insufficient_balance_witness:
  "wellFormedRequest parseAddr parseNum trimAscii request1 ''42'' ''ADDR1'' (Fin (1 / 2))
   \<and> users withWallet ''42'' = Some alice \<and> pendingTransactions withWallet ''42'' = None
   \<and> ledger (1 / 4) (publicKey alice) = Inr \<lparr>balance = Fin (1 / 4), lamports = Fin 250000000\<rparr>
   \<and> num_less (Fin (1 / 4)) (Fin (1 / 2))
   \<and> onText parseAddr parseNum trimAscii withWallet request1 (ledger (1 / 4)) 1000 =
       (withWallet, [Reply (InsufficientBalanceAtPropose (Fin (1 / 4)) (Fin (1 / 2)))])"
proof -
  have k: "users withWallet ''42'' = Some alice" by (simp add: withWallet_eq)
  have w: "pendingTransactions withWallet ''42'' = None"
    by (simp add: withWallet_eq initial_def)
  have l: "ledger (1 / 4) (publicKey alice) =
      Inr \<lparr>balance = Fin (1 / 4), lamports = Fin 250000000\<rparr>"
    by (simp add: ledger_def)
  have m: "num_less (balance \<lparr>balance = Fin (1 / 4), lamports = Fin 250000000\<rparr>) (Fin (1 / 2))"
    by simp
  show ?thesis
    using propose_insufficient_balance [where rpc = "ledger (1 / 4)" and now = 1000,
        OF request1_wellFormed k w l m] request1_wellFormed k w l
    by simp
qed

text \<open>
  C8 (as the code has it). For a non-empty user id the cancel handler deletes the user's
  pending proposal if there is one and touches no other entry; it ends normally with the
  same two calls on the context whether or not a proposal was there, so nothing it returns
  or sends tells whether one existed; without a pending proposal it leaves the state as it
  is.
\<close>

theorem cancel_removes_without_report:
  assumes "u \<noteq> []"
  shows "pendingTransactions (fst (handleCancelSendSol s (Some u))) u = None
     \<and> (\<forall>v. v \<noteq> u \<longrightarrow>
          pendingTransactions (fst (handleCancelSendSol s (Some u))) v = pendingTransactions s v)
     \<and> snd (handleCancelSendSol s (Some u)) =
         [AnswerCbQuery ''Transaction cancelled'', EditMessageText TransactionCancelled]
     \<and> (pendingTransactions s u = None \<longrightarrow> fst (handleCancelSendSol s (Some u)) = s)"
  using assms by (simp add: handleCancelSendSol_def validateUserId_def)

theorem cancel_removes_without_report_witness:
  "''42'' \<noteq> []
   \<and> pendingTransactions withProposal ''42'' \<noteq> None
   \<and> pendingTransactions (fst (handleCancelSendSol withProposal (Some ''42''))) ''42'' = None
   \<and> snd (handleCancelSendSol withProposal (Some ''42'')) =
       [AnswerCbQuery ''Transaction cancelled'', EditMessageText TransactionCancelled]
   \<and> pendingTransactions withWallet ''42'' = None
   \<and> fst (handleCancelSendSol withWallet (Some ''42'')) = withWallet"
proof -
  have n: "''42'' \<noteq> []" by simp
  have p: "pendingTransactions withProposal ''42'' \<noteq> None" by (simp add: withProposal_eq)
  have w: "pendingTransactions withWallet ''42'' = None"
    by (simp add: withWallet_eq initial_def)
  note c = cancel_removes_without_report [OF n, of withProposal]
  note d = cancel_removes_without_report [OF n, of withWallet]
  from n p w c d show ?thesis by blast
qed

text \<open>
  C8 as stated fails: with a proposal pending and with none, the handler makes the same
  calls, so its result is not true in exactly the case where a proposal was removed.
\<close>

theorem cancel_reply_same_counterexample:
  "pendingTransactions withProposal ''42'' \<noteq> None
   \<and> pendingTransactions withWallet ''42'' = None
   \<and> snd (handleCancelSendSol withProposal (Some ''42'')) =
     snd (handleCancelSendSol withWallet (Some ''42''))"
  by (simp add: withProposal_eq withWallet_eq initial_def handleCancelSendSol_def
      validateUserId_def Let_def)

text \<open>
  C9 (as the code has it). Two well-formed transfer requests of the same user, who has a
  wallet, no pending proposal and a balance that covers either amount: when one handler
  runs to its end before the other starts, the one that runs first stores its proposal and
  asks for confirmation, and the other is answered with the already-pending reply; this
  holds for both orders.
\<close>

theorem sequential_proposals_exclusive:
  assumes "wellFormedRequest PublicKey parseFloat trim upd u addr amt"
    and "wellFormedRequest PublicKey parseFloat trim upd' u addr' amt'"
    and "users s u = Some kp" and "pendingTransactions s u = None"
    and "rpc (publicKey kp) = Inr b"
    and "\<not> num_less (balance b) amt" and "\<not> num_less (balance b) amt'"
  shows "runSchedule PublicKey parseFloat trim rpc now now' [First, First, Second, Second]
             (s, Arrived upd, Arrived upd') =
           (s\<lparr>pendingTransactions := (pendingTransactions s)(u \<mapsto>
                \<lparr>recipientAddress = addr, amount = amt, timestamp = now\<rparr>)\<rparr>,
            Finished [Reply (ConfirmSolTransfer amt addr (balance b))],
            Finished [Reply AlreadyPendingTransaction])
       \<and> runSchedule PublicKey parseFloat trim rpc now now' [Second, Second, First, First]
             (s, Arrived upd, Arrived upd') =
           (s\<lparr>pendingTransactions := (pendingTransactions s)(u \<mapsto>
                \<lparr>recipientAddress = addr', amount = amt', timestamp = now'\<rparr>)\<rparr>,
            Finished [Reply AlreadyPendingTransaction],
            Finished [Reply (ConfirmSolTransfer amt' addr' (balance b))])"
  using assms
  by (simp add: runTask_def onTextBegin_wellFormed onTextResume_def getBalance_def)

theorem sequential_proposals_exclusive_witness:
  "wellFormedRequest parseAddr parseNum trimAscii request1 ''42'' ''ADDR1'' (Fin (1 / 2))
   \<and> wellFormedRequest parseAddr parseNum trimAscii request2 ''42'' ''ADDR2'' (Fin (1 / 4))
   \<and> users withWallet ''42'' = Some alice \<and> pendingTransactions withWallet ''42'' = None
   \<and> ledger 1 (publicKey alice) = Inr \<lparr>balance = Fin 1, lamports = Fin 1000000000\<rparr>
   \<and> \<not> num_less (Fin 1) (Fin (1 / 2)) \<and> \<not> num_less (Fin 1) (Fin (1 / 4))
   \<and> runSchedule parseAddr parseNum trimAscii (ledger 1) 1000 1001 [First, First, Second, Second]
        (withWallet, Arrived request1, Arrived request2) =
       (withWallet\<lparr>pendingTransactions := (pendingTransactions withWallet)(''42'' \<mapsto>
            \<lparr>recipientAddress = ''ADDR1'', amount = Fin (1 / 2), timestamp = 1000\<rparr>)\<rparr>,
        Finished [Reply (ConfirmSolTransfer (Fin (1 / 2)) ''ADDR1'' (Fin 1))],
        Finished [Reply AlreadyPendingTransaction])"
proof -
  have k: "users withWallet ''42'' = Some alice" by (simp add: withWallet_eq)
  have w: "pendingTransactions withWallet ''42'' = None"
    by (simp add: withWallet_eq initial_def)
  have l: "ledger 1 (publicKey alice) = Inr \<lparr>balance = Fin 1, lamports = Fin 1000000000\<rparr>"
    by (simp add: ledger_def)
  have e: "\<not> num_less (Fin 1) (Fin (1 / 2))" by simp
  have e': "\<not> num_less (Fin 1) (Fin (1 / 4))" by simp
  have f: "\<not> num_less (balance \<lparr>balance = Fin 1, lamports = Fin 1000000000\<rparr>) (Fin (1 / 2))"
    by simp
  have f': "\<not> num_less (balance \<lparr>balance = Fin 1, lamports = Fin 1000000000\<rparr>) (Fin (1 / 4))"
    by simp
  note c = sequential_proposals_exclusive [where rpc = "ledger 1" and now = 1000 and now' = 1001,
      OF request1_wellFormed request2_wellFormed k w l f f',
      simplified balanceInfo.select_convs]
  from request1_wellFormed request2_wellFormed k w l e e' c show ?thesis by blast
qed

text \<open>
  C9 as stated fails: the test for a pending proposal and the store are separated by the
  balance fetch. When both handlers pass the test before either is resumed, both store and
  both ask for confirmation, neither is answered with the already-pending reply, and the
  proposal for \<^verbatim>\<open>ADDR1\<close> is overwritten by the one for \<^verbatim>\<open>ADDR2\<close>.
\<close>

theorem overlapping_proposals_counterexample:
  "fst (snd overlappingRun) = Finished [Reply (ConfirmSolTransfer (Fin (1 / 2)) ''ADDR1'' (Fin 1))]
   \<and> snd (snd overlappingRun) = Finished [Reply (ConfirmSolTransfer (Fin (1 / 4)) ''ADDR2'' (Fin 1))]
   \<and> pendingTransactions (fst overlappingRun) ''42'' =
       Some \<lparr>recipientAddress = ''ADDR2'', amount = Fin (1 / 4), timestamp = 1001\<rparr>"
  by (simp add: overlappingRun_def runTask_def
      onTextBegin_wellFormed [OF request1_wellFormed, of _ alice]
      onTextBegin_wellFormed [OF request2_wellFormed, of _ alice]
      onTextResume_def getBalance_def ledger_def withWallet_eq initial_def)

text \<open>
  C10. When the first provisioning request of \<open>u\<close> generates a keypair and the balance
  fetch that follows fails, the keypair is stored all the same and the only calls made are
  the progress notice, the two lines on the error console (the ledger client's and the
  handler's) and the generic error notice, none of which carries the recovery phrase. In every state reached from there by any steps of the
  bot, \<open>u\<close> still has this keypair, and a new provisioning request answers that the wallet
  already exists and changes nothing.
\<close>

theorem provision_survives_balance_failure:
  assumes "u \<noteq> []" and "users s u = None" and "rpc (publicKey kp) = Inl e"
  shows "handleGenerateWallet s (Some u) (Inr (mn, kp)) rpc =
           (s\<lparr>users := (users s)(u \<mapsto> kp)\<rparr>,
            [AnswerCbQuery ''Generating wallet...'',
             ConsoleError ''Error fetching balance:'' e,
             ConsoleError ''Error in generate_wallet handler:''
               (Error ''Failed to fetch balance. Please try again later.''),
             AnswerCbQuery ''Something went wrong!''])
       \<and> (\<forall>s'. (step PublicKey)\<^sup>*\<^sup>* (s\<lparr>users := (users s)(u \<mapsto> kp)\<rparr>) s' \<longrightarrow>
            users s' u = Some kp
          \<and> handleGenerateWallet s' (Some u) gen' rpc' =
              (s', [AnswerCbQuery ''Generating wallet...'', SendMessage WalletAlreadyExists True]))"
proof -
  have first: "handleGenerateWallet s (Some u) (Inr (mn, kp)) rpc =
           (s\<lparr>users := (users s)(u \<mapsto> kp)\<rparr>,
            [AnswerCbQuery ''Generating wallet...'',
             ConsoleError ''Error fetching balance:'' e,
             ConsoleError ''Error in generate_wallet handler:''
               (Error ''Failed to fetch balance. Please try again later.''),
             AnswerCbQuery ''Something went wrong!''])"
    using assms
    by (simp add: handleGenerateWallet_def validateUserId_def getBalance_def handleError_def)
  have stored: "users (s\<lparr>users := (users s)(u \<mapsto> kp)\<rparr>) u = Some kp" by simp
  have later: "users s' u = Some kp
          \<and> handleGenerateWallet s' (Some u) gen' rpc' =
              (s', [AnswerCbQuery ''Generating wallet...'', SendMessage WalletAlreadyExists True])"
    if "(step PublicKey)\<^sup>*\<^sup>* (s\<lparr>users := (users s)(u \<mapsto> kp)\<rparr>) s'" for s'
  proof -
    from that stored have "users s' u = Some kp" by (rule steps_keep_wallet)
    then show ?thesis using assms(1)
      by (simp add: handleGenerateWallet_def validateUserId_def sendMessageWithKeyboard_def
          hasWallet_def)
  qed
  from first later show ?thesis by blast
qed

theorem provision_survives_balance_failure_witness:
  "''42'' \<noteq> [] \<and> users initial ''42'' = None
   \<and> ledgerDown (publicKey alice) = Inl (Error ''fetch failed'')
   \<and> handleGenerateWallet initial (Some ''42'') (Inr (''abandon ability'', alice)) ledgerDown =
       (initial\<lparr>users := (users initial)(''42'' \<mapsto> alice)\<rparr>,
        [AnswerCbQuery ''Generating wallet...'',
         ConsoleError ''Error fetching balance:'' (Error ''fetch failed''),
         ConsoleError ''Error in generate_wallet handler:''
           (Error ''Failed to fetch balance. Please try again later.''),
         AnswerCbQuery ''Something went wrong!''])
   \<and> (step parseAddr)\<^sup>*\<^sup>* (initial\<lparr>users := (users initial)(''42'' \<mapsto> alice)\<rparr>)
        (sweepPendingTransactions 5000 (initial\<lparr>users := (users initial)(''42'' \<mapsto> alice)\<rparr>))
   \<and> users (sweepPendingTransactions 5000 (initial\<lparr>users := (users initial)(''42'' \<mapsto> alice)\<rparr>))
        ''42'' = Some alice
   \<and> handleGenerateWallet
        (sweepPendingTransactions 5000 (initial\<lparr>users := (users initial)(''42'' \<mapsto> alice)\<rparr>))
        (Some ''42'') (Inr (''zoo zone'', \<lparr>publicKey = ''OTHER'', secretKey = [9]\<rparr>)) (ledger 1) =
       (sweepPendingTransactions 5000 (initial\<lparr>users := (users initial)(''42'' \<mapsto> alice)\<rparr>),
        [AnswerCbQuery ''Generating wallet...'', SendMessage WalletAlreadyExists True])"
proof -
  have n: "''42'' \<noteq> []" by simp
  have i: "users initial ''42'' = None" by (simp add: initial_def)
  have d: "ledgerDown (publicKey alice) = Inl (Error ''fetch failed'')"
    by (simp add: ledgerDown_def)
  have r: "(step parseAddr)\<^sup>*\<^sup>* (initial\<lparr>users := (users initial)(''42'' \<mapsto> alice)\<rparr>)
        (sweepPendingTransactions 5000 (initial\<lparr>users := (users initial)(''42'' \<mapsto> alice)\<rparr>))"
    by (rule r_into_rtranclp) (rule step.sweep)
  note c = provision_survives_balance_failure [where PublicKey = parseAddr
      and s = initial and u = "''42''" and kp = alice and rpc = ledgerDown
      and mn = "''abandon ability''"
      and gen' = "Inr (''zoo zone'', \<lparr>publicKey = ''OTHER'', secretKey = [9]\<rparr>)"
      and rpc' = "ledger 1", OF n i d]
  from n i d r c show ?thesis by blast
qed

end
